theory Spec2Isabelle
  imports Complex_Main
begin

section \<open>The replay control surface (static/app/components/replays/replayController.tsx)\<close>

text \<open>
  The file under verification is the React component \<^verbatim>\<open>ReplayControls\<close> with its
  children \<^verbatim>\<open>ReplayPlayPauseBar\<close> and \<^verbatim>\<open>ReplayPlaybackSpeed\<close>. Its decision logic is
  \<^item> which buttons a render shows, given the compaction level and the playback state;
  \<^item> which command of the replay context each click handler calls, and with which
    argument;
  \<^item> how the compaction level follows the measured width of the bar.

  A handler is modelled as the list of context commands it calls, in order (every handler
  of this file calls at most one). The commands themselves (\<^verbatim>\<open>setCurrentTime\<close>,
  \<^verbatim>\<open>restart\<close>, \<^verbatim>\<open>togglePlayPause\<close>, \<^verbatim>\<open>setSpeed\<close>, ...) come from
  \<^verbatim>\<open>useReplayContext()\<close> and are not defined in this file.

  A JavaScript \<^verbatim>\<open>number\<close> is modelled as a \<^typ>\<open>real\<close>: arithmetic is exact, and NaN and
  the infinities are not values of the model. A value that may be \<^verbatim>\<open>undefined\<close> is an
  \<^typ>\<open>'a option\<close>.
\<close>

subsection \<open>Data\<close>

text \<open>
  \<^verbatim>\<open>BreadcrumbType\<close> is imported from \<^verbatim>\<open>sentry/types/breadcrumbs\<close>; the file names five
  of its members. Every other member the enum may have is a value \<open>OTHER name\<close>.
\<close>

datatype BreadcrumbType = ERROR | INIT | NAVIGATION | UI | USER | OTHER string

text \<open>
  A breadcrumb, as far as this file reads it: \<^verbatim>\<open>crumb.type\<close> and \<^verbatim>\<open>crumb.timestamp\<close>
  (tested for truthiness before use, hence optional). Following the specification's data
  model the timestamp is an absolute time in milliseconds.
\<close>

record Crumb =
  type :: BreadcrumbType
  timestamp :: "real option"

text \<open>\<^verbatim>\<open>replay.getEvent()\<close>: the start of the session, in seconds.\<close>

record Event =
  startTimestamp :: "real option"

text \<open>The replay reader: \<^verbatim>\<open>getEvent()\<close> and \<^verbatim>\<open>getRawCrumbs()\<close>.\<close>

record 'raw ReplayReader =
  getEvent :: Event
  getRawCrumbs :: "'raw list"

text \<open>The fields of \<^verbatim>\<open>useReplayContext()\<close> that the file reads.\<close>

record 'raw ReplayContext =
  currentTime :: real
  duration :: real
  isFinished :: bool
  isPlaying :: bool
  isSkippingInactive :: bool
  speed :: real
  replay :: "'raw ReplayReader option"

text \<open>The commands of the replay context, and the fullscreen toggle passed as a prop.\<close>

datatype Command =
    SetCurrentTime real
  | Restart
  | TogglePlayPause bool
  | SetSpeed real
  | ToggleSkipInactive bool
  | ToggleFullscreen

definition SECOND :: real where
  "SECOND = 1000"

definition USER_ACTIONS :: "BreadcrumbType list" where
  "USER_ACTIONS = [ERROR, INIT, NAVIGATION, UI, USER]"

text \<open>Truthiness of an optional number: \<^verbatim>\<open>undefined\<close> and \<^verbatim>\<open>0\<close> are falsy.\<close>

fun truthy :: "real option \<Rightarrow> bool" where
  "truthy None = False"
| "truthy (Some x) = (x \<noteq> 0)"

subsection \<open>ReplayPlayPauseBar: the click handlers\<close>

text \<open>\<^verbatim>\<open>onClick={() => setCurrentTime(currentTime - 10 * SECOND)}\<close>\<close>

definition onClickRewind10 :: "'raw ReplayContext \<Rightarrow> Command list" where
  "onClickRewind10 ctx = [SetCurrentTime (currentTime ctx - 10 * SECOND)]"

text \<open>\<^verbatim>\<open>onClick={restart}\<close>\<close>

definition onClickRestart :: "Command list" where
  "onClickRestart = [Restart]"

text \<open>\<^verbatim>\<open>onClick={() => togglePlayPause(!isPlaying)}\<close>\<close>

definition onClickPlayPause :: "'raw ReplayContext \<Rightarrow> Command list" where
  "onClickPlayPause ctx = [TogglePlayPause (\<not> isPlaying ctx)]"

text \<open>
  The middle button of the bar: \<^verbatim>\<open>isFinished ? <Button onClick={restart}/> :
  <Button onClick={() => togglePlayPause(!isPlaying)}/>\<close>. One of the two buttons is
  rendered, and a click runs the handler of the one that is.
\<close>

definition onClickPrimary :: "'raw ReplayContext \<Rightarrow> Command list" where
  "onClickPrimary ctx = (if isFinished ctx then onClickRestart else onClickPlayPause ctx)"

text \<open>\<^verbatim>\<open>replay?.getEvent().startTimestamp\<close>\<close>

definition startTimestampSec :: "'raw ReplayContext \<Rightarrow> real option" where
  "startTimestampSec ctx =
     (case replay ctx of None \<Rightarrow> None | Some r \<Rightarrow> startTimestamp (getEvent r))"

text \<open>\<^verbatim>\<open>replay?.getRawCrumbs() || []\<close>\<close>

definition rawCrumbs :: "'raw ReplayContext \<Rightarrow> 'raw list" where
  "rawCrumbs ctx = (case replay ctx of None \<Rightarrow> [] | Some r \<Rightarrow> getRawCrumbs r)"

text \<open>
  The crumbs the next-breadcrumb handler passes to \<^verbatim>\<open>getNextBreadcrumb\<close>:
  \<^verbatim>\<open>transformedCrumbs.filter(crumb => USER_ACTIONS.includes(crumb.type))\<close>. The helper
  \<^verbatim>\<open>transformCrumbs\<close> is imported; it is a parameter here.
\<close>

definition userActionCrumbs ::
  "('raw list \<Rightarrow> Crumb list) \<Rightarrow> 'raw ReplayContext \<Rightarrow> Crumb list" where
  "userActionCrumbs transformCrumbs ctx =
     (let transformedCrumbs = transformCrumbs (rawCrumbs ctx)
      in filter (\<lambda>crumb. type crumb \<in> set USER_ACTIONS) transformedCrumbs)"

text \<open>
  The handler of the next-breadcrumb button (lines 86 to 102). The imported helpers
  \<^verbatim>\<open>transformCrumbs\<close>, \<^verbatim>\<open>getNextBreadcrumb\<close> and \<^verbatim>\<open>relativeTimeInMs\<close> are parameters.
  The early \<^verbatim>\<open>return\<close> on \<^verbatim>\<open>!startTimestampSec\<close> and the guard
  \<^verbatim>\<open>startTimestampSec !== undefined && next?.timestamp\<close> around the call are branches of
  the model.
\<close>

definition onClickNextBreadcrumb ::
  "('raw list \<Rightarrow> Crumb list) \<Rightarrow> (Crumb list \<Rightarrow> real \<Rightarrow> Crumb option) \<Rightarrow>
   (real \<Rightarrow> real \<Rightarrow> real) \<Rightarrow> 'raw ReplayContext \<Rightarrow> Command list" where
  "onClickNextBreadcrumb transformCrumbs getNextBreadcrumb relativeTimeInMs ctx =
     (if \<not> truthy (startTimestampSec ctx) then []
      else
        (case startTimestampSec ctx of
           None \<Rightarrow> []
         | Some s \<Rightarrow>
             (let next = getNextBreadcrumb (userActionCrumbs transformCrumbs ctx)
                           (s * 1000 + currentTime ctx)
              in case next of
                   None \<Rightarrow> []
                 | Some n \<Rightarrow>
                     if truthy (timestamp n)
                     then (case timestamp n of
                             None \<Rightarrow> []
                           | Some ts \<Rightarrow> [SetCurrentTime (relativeTimeInMs ts s)])
                     else [])))"

text \<open>
  The idle-skip button and the fullscreen button of \<^verbatim>\<open>ReplayControls\<close>:
  \<^verbatim>\<open>onClick={() => toggleSkipInactive(!isSkippingInactive)}\<close> and
  \<^verbatim>\<open>onClick={toggleFullscreen}\<close>.
\<close>

definition onClickSkipInactive :: "'raw ReplayContext \<Rightarrow> Command list" where
  "onClickSkipInactive ctx = [ToggleSkipInactive (\<not> isSkippingInactive ctx)]"

definition onClickFullscreen :: "Command list" where
  "onClickFullscreen = [ToggleFullscreen]"

subsection \<open>ReplayPlayPauseBar: what a render shows\<close>

datatype Button = Rewind10Button | RestartButton | PlayPauseButton | NextBreadcrumbButton

text \<open>
  The children of the \<^verbatim>\<open>ButtonBar\<close>, in order: \<^verbatim>\<open>{!isCompact && <Rewind 10s>}\<close>, then
  the restart or the play/pause button, then \<^verbatim>\<open>{!isCompact && <Next breadcrumb>}\<close>.
\<close>

definition ReplayPlayPauseBar :: "bool \<Rightarrow> 'raw ReplayContext \<Rightarrow> Button list" where
  "ReplayPlayPauseBar isCompact ctx =
     (if \<not> isCompact then [Rewind10Button] else [])
     @ [if isFinished ctx then RestartButton else PlayPauseButton]
     @ (if \<not> isCompact then [NextBreadcrumbButton] else [])"

subsection \<open>ReplayPlaybackSpeed\<close>

record SelectOption =
  optionValue :: real
  label :: string
  disabled :: bool

record CompactSelect =
  prefix :: string
  selected :: real
  options :: "SelectOption list"

text \<open>
  The select of the playback speed. The translation \<^verbatim>\<open>t\<close> and the conversion of a number
  to text in the template string \<^verbatim>\<open>`${speedOption}x`\<close> are parameters.
\<close>

definition ReplayPlaybackSpeed ::
  "(string \<Rightarrow> string) \<Rightarrow> (real \<Rightarrow> string) \<Rightarrow> real list \<Rightarrow> bool \<Rightarrow>
   'raw ReplayContext \<Rightarrow> CompactSelect" where
  "ReplayPlaybackSpeed t numberToString speedOptions isCompact ctx =
     \<lparr>prefix = (if isCompact then [] else t ''Speed''),
      selected = speed ctx,
      options =
        map (\<lambda>speedOption.
               \<lparr>optionValue = speedOption,
                label = numberToString speedOption @ ''x'',
                disabled = (speedOption = speed ctx)\<rparr>)
            speedOptions\<rparr>"

text \<open>\<^verbatim>\<open>onChange={opt => { setSpeed(opt.value); }}\<close>\<close>

definition onChangeSpeed :: "SelectOption \<Rightarrow> Command list" where
  "onChangeSpeed opt = [SetSpeed (optionValue opt)]"

text \<open>The default of the prop \<^verbatim>\<open>speedOptions\<close>.\<close>

definition defaultSpeedOptions :: "real list" where
  "defaultSpeedOptions = [0.1, 0.25, 0.5, 1, 2, 4]"

subsection \<open>ReplayControls: the compaction level\<close>

text \<open>The field of \<^verbatim>\<open>getBoundingClientRect()\<close> that the file reads.\<close>

record DOMRect =
  width :: real

text \<open>
  \<^verbatim>\<open>const {width} = barRef.current?.getBoundingClientRect() ?? {width: 500}\<close>: the
  argument is \<^verbatim>\<open>barRef.current?.getBoundingClientRect()\<close>, which is \<open>None\<close> when
  \<^verbatim>\<open>barRef.current\<close> is null.
\<close>

definition measuredRect :: "DOMRect option \<Rightarrow> DOMRect" where
  "measuredRect boundingClientRect =
     (case boundingClientRect of None \<Rightarrow> \<lparr>width = 500\<rparr> | Some r \<Rightarrow> r)"

text \<open>
  \<^verbatim>\<open>updateCompactLevel\<close>. The first argument is as above; the second is the state
  \<^verbatim>\<open>compactLevel\<close> before the call, and the result is the state after
  \<^verbatim>\<open>setCompactLevel\<close>.
\<close>

definition updateCompactLevel :: "DOMRect option \<Rightarrow> nat \<Rightarrow> nat" where
  "updateCompactLevel boundingClientRect compactLevel =
     (if width (measuredRect boundingClientRect) < 400 then 1 else 0)"

text \<open>
  The two children of \<^verbatim>\<open>ReplayControls\<close> that take \<^verbatim>\<open>isCompact={compactLevel > 0}\<close>.
  The other three (the current time, the idle-skip button and the fullscreen button) do
  not read the compaction level.
\<close>

record Rendered =
  playPauseBar :: "Button list"
  playbackSpeed :: CompactSelect

definition ReplayControls ::
  "(string \<Rightarrow> string) \<Rightarrow> (real \<Rightarrow> string) \<Rightarrow> real list \<Rightarrow> nat \<Rightarrow>
   'raw ReplayContext \<Rightarrow> Rendered" where
  "ReplayControls t numberToString speedOptions compactLevel ctx =
     \<lparr>playPauseBar = ReplayPlayPauseBar (compactLevel > 0) ctx,
      playbackSpeed =
        ReplayPlaybackSpeed t numberToString speedOptions (compactLevel > 0) ctx\<rparr>"

subsection \<open>ReplayControls: when the compaction level is computed\<close>

text \<open>
  The component registers \<^verbatim>\<open>updateCompactLevel\<close> twice:
  \<^verbatim>\<open>useResizeObserver({ref: barRef, onResize: updateCompactLevel})\<close> and
  \<^verbatim>\<open>useLayoutEffect(() => updateCompactLevel, [updateCompactLevel])\<close>.

  React runs the callback of a layout effect after the first render has been committed
  and before the browser paints; the function that the callback returns is the cleanup
  of the effect, which React runs when the component unmounts (the dependency
  \<^verbatim>\<open>updateCompactLevel\<close> is a \<^verbatim>\<open>useCallback\<close> with no dependencies and never changes).

  The callback \<^verbatim>\<open>() => updateCompactLevel\<close> has an expression body: it returns the
  function and does not call it. So the effect leaves the state as it is and hands
  \<^verbatim>\<open>updateCompactLevel\<close> to React as its cleanup.
\<close>

definition layoutEffect ::
  "DOMRect option \<Rightarrow> nat \<Rightarrow> nat \<times> (DOMRect option \<Rightarrow> nat \<Rightarrow> nat) option" where
  "layoutEffect boundingClientRect compactLevel = (compactLevel, Some updateCompactLevel)"

definition onResize :: "DOMRect option \<Rightarrow> nat \<Rightarrow> nat" where
  "onResize = updateCompactLevel"

text \<open>
  The life of one mounted \<^verbatim>\<open>ReplayControls\<close>: its state \<^verbatim>\<open>compactLevel\<close> and the
  cleanup React holds for it. Each event carries what \<^verbatim>\<open>getBoundingClientRect()\<close> of the
  bar would return at that moment.
\<close>

datatype Lifecycle =
    Mount "DOMRect option"
  | Resize "DOMRect option"
  | Unmount "DOMRect option"

record Mounted =
  compactLevel :: nat
  cleanup :: "(DOMRect option \<Rightarrow> nat \<Rightarrow> nat) option"

text \<open>
  \<open>Mount\<close>: \<^verbatim>\<open>useState(0)\<close>, then the layout effect. \<open>Resize\<close>: the observer's
  \<^verbatim>\<open>onResize\<close>. \<open>Unmount\<close>: the cleanup of the layout effect.
\<close>

fun lifecycle :: "Mounted \<Rightarrow> Lifecycle \<Rightarrow> Mounted" where
  "lifecycle m (Mount rect) =
     (let (level, c) = layoutEffect rect 0 in \<lparr>compactLevel = level, cleanup = c\<rparr>)"
| "lifecycle m (Resize rect) = m\<lparr>compactLevel := onResize rect (compactLevel m)\<rparr>"
| "lifecycle m (Unmount rect) =
     (case cleanup m of
        None \<Rightarrow> m
      | Some f \<Rightarrow> m\<lparr>compactLevel := f rect (compactLevel m), cleanup := None\<rparr>)"

text \<open>The compaction levels rendered after each of a sequence of measured widths.\<close>

fun levels :: "nat \<Rightarrow> real list \<Rightarrow> nat list" where
  "levels level [] = []"
| "levels level (w # ws) =
     (let l = updateCompactLevel (Some \<lparr>width = w\<rparr>) level in l # levels l ws)"

subsection \<open>The imported helpers and the playback clock, from the specification\<close>

text \<open>
  Modelled from the spec: \<^verbatim>\<open>transformCrumbs\<close> (imported from
  \<^verbatim>\<open>sentry/components/events/interfaces/breadcrumbs/utils\<close>, not in the sources) is the
  specification's \<^verbatim>\<open>buildIndex\<close>: an event lacking a usable timestamp is dropped, and the
  rest is sorted ascending by timestamp, stably (ties keep the input order).
\<close>

definition transformCrumbs :: "Crumb list \<Rightarrow> Crumb list" where
  "transformCrumbs rawEvents =
     sort_key (\<lambda>e. case timestamp e of None \<Rightarrow> 0 | Some ts \<Rightarrow> ts)
       (filter (\<lambda>e. timestamp e \<noteq> None) rawEvents)"

text \<open>
  Modelled from the spec: \<^verbatim>\<open>getNextBreadcrumb\<close> (imported from
  \<^verbatim>\<open>sentry/utils/replays/getBreadcrumb\<close>, not in the sources) is the specification's
  \<^verbatim>\<open>nextEventOfInterest\<close>, called on crumbs that the caller has restricted to the kind
  set already: a linear search over the sorted sequence for the first event whose
  timestamp is at or after the target; none when there is no such event.
\<close>

definition getNextBreadcrumb :: "Crumb list \<Rightarrow> real \<Rightarrow> Crumb option" where
  "getNextBreadcrumb crumbs targetTimestampMs =
     find (\<lambda>crumb. case timestamp crumb of None \<Rightarrow> False | Some ts \<Rightarrow> targetTimestampMs \<le> ts)
       crumbs"

text \<open>
  Modelled from the spec: \<^verbatim>\<open>relativeTimeInMs\<close> (imported from
  \<^verbatim>\<open>sentry/components/replays/utils\<close>, not in the sources) converts an absolute event time
  in milliseconds to the offset from the session start, which the caller passes in
  seconds: \<^verbatim>\<open>eventTimestampMs - sessionStartTimestamp\<close>.
\<close>

definition relativeTimeInMs :: "real \<Rightarrow> real \<Rightarrow> real" where
  "relativeTimeInMs timestampMs startSec = timestampMs - startSec * 1000"

text \<open>
  Modelled from the spec: \<^verbatim>\<open>clamp(t, 0, durationMs)\<close> of the playback clock, which keeps
  the current time within \<^verbatim>\<open>[0, durationMs]\<close>; the duration is never negative.
\<close>

definition clamp :: "real \<Rightarrow> real \<Rightarrow> real \<Rightarrow> real" where
  "clamp t lo hi = max lo (min hi t)"

text \<open>
  Modelled from the spec: \<^verbatim>\<open>setCurrentTime\<close> of the playback clock behind
  \<^verbatim>\<open>useReplayContext()\<close>, which is not in the sources:
  \<^verbatim>\<open>currentTimeMs = clamp(t, 0, durationMs); isFinished = (currentTimeMs == durationMs)\<close>.
\<close>

definition setCurrentTime :: "real \<Rightarrow> 'raw ReplayContext \<Rightarrow> 'raw ReplayContext" where
  "setCurrentTime t st =
     st\<lparr>currentTime := clamp t 0 (duration st),
        isFinished := (clamp t 0 (duration st) = duration st)\<rparr>"

text \<open>
  Running the commands a handler has called, in order, on any interpretation of the
  commands as state changes.
\<close>

definition dispatch :: "(Command \<Rightarrow> 'st \<Rightarrow> 'st) \<Rightarrow> Command list \<Rightarrow> 'st \<Rightarrow> 'st" where
  "dispatch clock commands st = fold clock commands st"

subsection \<open>Example inputs\<close>

text \<open>
  Scenario B of the specification: the session starts at 1 s (1000 ms), the events of
  interest are at 1050, 1210 and 1400 ms, and the playback cursor is at 120 ms.
\<close>

definition scenarioB :: "Crumb ReplayReader" where
  "scenarioB =
     \<lparr>getEvent = \<lparr>startTimestamp = Some 1\<rparr>,
      getRawCrumbs =
        [\<lparr>type = UI, timestamp = Some 1050\<rparr>,
         \<lparr>type = NAVIGATION, timestamp = Some 1210\<rparr>,
         \<lparr>type = USER, timestamp = Some 1400\<rparr>]\<rparr>"

definition contextB :: "Crumb ReplayContext" where
  "contextB =
     \<lparr>currentTime = 120, duration = 5000, isFinished = False, isPlaying = True,
      isSkippingInactive = False, speed = 1, replay = Some scenarioB\<rparr>"

text \<open>
  A session whose start timestamp is 0 (the epoch), with events of interest at 50, 210
  and 400 ms and the cursor at 120 ms.
\<close>

definition epochContext :: "Crumb ReplayContext" where
  "epochContext =
     \<lparr>currentTime = 120, duration = 5000, isFinished = False, isPlaying = True,
      isSkippingInactive = False, speed = 1,
      replay =
        Some \<lparr>getEvent = \<lparr>startTimestamp = Some 0\<rparr>,
              getRawCrumbs =
                [\<lparr>type = UI, timestamp = Some 50\<rparr>,
                 \<lparr>type = NAVIGATION, timestamp = Some 210\<rparr>,
                 \<lparr>type = USER, timestamp = Some 400\<rparr>]\<rparr>\<rparr>"

text \<open>
  A session that starts one second before the epoch, with one event of interest at the
  epoch itself (timestamp 0) and the cursor at 500 ms.
\<close>

definition beforeEpochContext :: "Crumb ReplayContext" where
  "beforeEpochContext =
     \<lparr>currentTime = 500, duration = 5000, isFinished = False, isPlaying = True,
      isSkippingInactive = False, speed = 1,
      replay =
        Some \<lparr>getEvent = \<lparr>startTimestamp = Some (- 1)\<rparr>,
              getRawCrumbs = [\<lparr>type = USER, timestamp = Some 0\<rparr>]\<rparr>\<rparr>"

text \<open>Scenario C of the specification: a replay of 5000 ms with the cursor at 4995 ms.\<close>

definition contextC :: "Crumb ReplayContext" where
  "contextC =
     \<lparr>currentTime = 4995, duration = 5000, isFinished = False, isPlaying = True,
      isSkippingInactive = False, speed = 1, replay = None\<rparr>"

section \<open>Properties\<close>

subsection \<open>Auxiliary facts\<close>

lemma truthy_iff: "truthy v \<longleftrightarrow> (\<exists>x. v = Some x \<and> x \<noteq> 0)"
  by (cases v) simp_all

lemma onClickNextBreadcrumb_falsy_start:
  "\<not> truthy (startTimestampSec ctx) \<Longrightarrow> onClickNextBreadcrumb tc gnb rel ctx = []"
  by (simp add: onClickNextBreadcrumb_def)

lemma onClickNextBreadcrumb_known:
  assumes "startTimestampSec ctx = Some s" and "s \<noteq> 0"
  shows "onClickNextBreadcrumb tc gnb rel ctx =
     (case gnb (userActionCrumbs tc ctx) (s * 1000 + currentTime ctx) of
        None \<Rightarrow> []
      | Some n \<Rightarrow>
          (case timestamp n of
             None \<Rightarrow> []
           | Some ts \<Rightarrow> if ts = 0 then [] else [SetCurrentTime (rel ts s)]))"
  using assms
  by (simp add: onClickNextBreadcrumb_def Let_def split: option.splits)

lemma set_USER_ACTIONS: "set USER_ACTIONS = {ERROR, INIT, NAVIGATION, UI, USER}"
  by (simp add: USER_ACTIONS_def)

text \<open>The helpers as the specification describes them, checked against its own words.\<close>

lemma set_transformCrumbs:
  "set (transformCrumbs rawEvents) = {e \<in> set rawEvents. timestamp e \<noteq> None}"
  by (simp add: transformCrumbs_def)

lemma sorted_transformCrumbs:
  "sorted (map (\<lambda>e. case timestamp e of None \<Rightarrow> 0 | Some ts \<Rightarrow> ts) (transformCrumbs rawEvents))"
  by (simp add: transformCrumbs_def)

lemma transformCrumbs_scenarioA:
  "transformCrumbs
     [\<lparr>type = USER, timestamp = Some 100\<rparr>, \<lparr>type = USER, timestamp = Some 50\<rparr>,
      \<lparr>type = USER, timestamp = Some 200\<rparr>]
   = [\<lparr>type = USER, timestamp = Some 50\<rparr>, \<lparr>type = USER, timestamp = Some 100\<rparr>,
      \<lparr>type = USER, timestamp = Some 200\<rparr>]"
  by (simp add: transformCrumbs_def)

lemma getNextBreadcrumb_Some:
  assumes "getNextBreadcrumb crumbs target = Some n"
  shows "n \<in> set crumbs \<and> (\<exists>ts. timestamp n = Some ts \<and> target \<le> ts)"
proof -
  from assms obtain i where "i < length crumbs" and n: "n = crumbs ! i"
    and q: "case timestamp (crumbs ! i) of None \<Rightarrow> False | Some ts \<Rightarrow> target \<le> ts"
    unfolding getNextBreadcrumb_def find_Some_iff by blast
  then have "n \<in> set crumbs" by simp
  moreover from q n have "\<exists>ts. timestamp n = Some ts \<and> target \<le> ts"
    by (cases "timestamp n") simp_all
  ultimately show ?thesis by blast
qed

lemma getNextBreadcrumb_None_iff:
  "getNextBreadcrumb crumbs target = None \<longleftrightarrow>
     (\<forall>c \<in> set crumbs. \<forall>ts. timestamp c = Some ts \<longrightarrow> ts < target)"
proof -
  have q: "(case timestamp c of None \<Rightarrow> False | Some ts \<Rightarrow> target \<le> ts) \<longleftrightarrow>
        \<not> (\<forall>ts. timestamp c = Some ts \<longrightarrow> ts < target)" for c
    by (cases "timestamp c") (simp_all add: not_less)
  show ?thesis
    unfolding getNextBreadcrumb_def find_None_iff q by blast
qed

text \<open>
  The crumbs the handler queries are sorted, so the first event at or after the target is
  the earliest one: no queried event at or after the target is earlier than the one the
  search returns.
\<close>

lemma sorted_userActionCrumbs:
  "sorted (map (\<lambda>e. case timestamp e of None \<Rightarrow> 0 | Some ts \<Rightarrow> ts)
     (userActionCrumbs transformCrumbs ctx))"
  unfolding userActionCrumbs_def Let_def
  by (rule sorted_filter) (rule sorted_transformCrumbs)

lemma getNextBreadcrumb_earliest:
  assumes sorted: "sorted (map (\<lambda>e. case timestamp e of None \<Rightarrow> 0 | Some ts \<Rightarrow> ts) crumbs)"
    and found: "getNextBreadcrumb crumbs target = Some n"
    and c: "c \<in> set crumbs" "timestamp c = Some tc" "target \<le> tc"
    and n: "timestamp n = Some tn"
  shows "tn \<le> tc"
proof -
  let ?P = "\<lambda>crumb. case timestamp crumb of None \<Rightarrow> False | Some ts \<Rightarrow> target \<le> ts"
  let ?key = "\<lambda>e. case timestamp e of None \<Rightarrow> 0 | Some ts \<Rightarrow> ts"
  from found obtain i where i: "i < length crumbs" "n = crumbs ! i"
    and before: "\<forall>j<i. \<not> ?P (crumbs ! j)"
    unfolding getNextBreadcrumb_def find_Some_iff by blast
  from c(1) obtain k where k: "k < length crumbs" "c = crumbs ! k"
    by (auto simp: in_set_conv_nth)
  from c have "?P c" by simp
  with before k have "i \<le> k" by (meson not_le)
  with sorted i k have "?key n \<le> ?key c"
    by (simp add: sorted_iff_nth_mono)
  with n c show ?thesis by simp
qed

subsection \<open>The middle button\<close>

text \<open>
  C3. The middle button of the bar runs exactly one command per click: \<^verbatim>\<open>restart()\<close> when
  the replay is finished, and otherwise \<^verbatim>\<open>togglePlayPause\<close> with the negation of the
  current \<^verbatim>\<open>isPlaying\<close>. The choice between the two is made by the component, from
  \<^verbatim>\<open>isFinished\<close>, and not by the clock.
\<close>

theorem primary_control_dispatch:
  "onClickPrimary ctx =
     (if isFinished ctx then [Restart] else [TogglePlayPause (\<not> isPlaying ctx)])
   \<and> length (onClickPrimary ctx) = 1"
  by (simp add: onClickPrimary_def onClickRestart_def onClickPlayPause_def)

subsection \<open>Rewind 10 seconds\<close>

text \<open>
  C4. The rewind button calls no command of its own: it calls
  \<^verbatim>\<open>setCurrentTime(currentTime - 10000)\<close>, once. With the clock's clamp the new current
  time is never negative, and it is 0 whenever the cursor was within the first ten
  seconds; so for a replay of 5000 ms with the cursor at 4995 ms the rewind ends at 0.
\<close>

theorem rewind10_dispatch:
  "onClickRewind10 ctx = [SetCurrentTime (currentTime ctx - 10000)]
   \<and> 0 \<le> currentTime (setCurrentTime (currentTime ctx - 10000) ctx)
   \<and> (currentTime ctx \<le> 10000 \<longrightarrow>
        currentTime (setCurrentTime (currentTime ctx - 10000) ctx) = 0)"
  by (simp add: onClickRewind10_def SECOND_def setCurrentTime_def clamp_def)

text \<open>Scenario C: duration 5000 ms, cursor at 4995 ms.\<close>

theorem rewind10_dispatch_witness:
  "currentTime contextC = 4995 \<and> duration contextC = 5000
   \<and> currentTime contextC \<le> 10000
   \<and> onClickRewind10 contextC = [SetCurrentTime (- 5005)]
   \<and> currentTime (setCurrentTime (- 5005) contextC) = 0"
proof -
  have h: "currentTime contextC = 4995 \<and> duration contextC = 5000"
    by (simp add: contextC_def)
  then have le: "currentTime contextC \<le> 10000" by simp
  from rewind10_dispatch [of contextC] le
  have d: "onClickRewind10 contextC = [SetCurrentTime (currentTime contextC - 10000)]"
    and z: "currentTime (setCurrentTime (currentTime contextC - 10000) contextC) = 0"
    by blast+
  from h have "currentTime contextC - 10000 = - 5005" by simp
  with d z have "onClickRewind10 contextC = [SetCurrentTime (- 5005)]"
    and "currentTime (setCurrentTime (- 5005) contextC) = 0"
    by simp_all
  with h le show ?thesis by blast
qed

subsection \<open>Seek to the next breadcrumb\<close>

text \<open>
  C1, as amended. For every state whose session start timestamp is known and not 0, the
  handler computes the target \<^verbatim>\<open>startTimestampSec * 1000 + currentTime\<close> and queries
  \<^verbatim>\<open>getNextBreadcrumb\<close> with it on the crumbs whose type is in \<^verbatim>\<open>USER_ACTIONS\<close>; when
  the query returns an event whose timestamp is present and not 0, the handler calls
  \<^verbatim>\<open>setCurrentTime(relativeTimeInMs(next.timestamp, startTimestampSec))\<close>, once.

  With the helpers of the specification the event sought is the earliest event of
  interest at or after the target: the event returned is in the index, its kind is one of
  the five, its timestamp is at or after the target, and no event of the index of one of
  the five kinds at or after the target is earlier; whenever the index holds such an
  event the query returns one; and the argument of \<^verbatim>\<open>setCurrentTime\<close> is the timestamp of
  the event minus the session start in milliseconds.

  In scenario B (cursor at 120 ms, session start 1 s, events of interest at 1050, 1210
  and 1400 ms) the handler calls \<^verbatim>\<open>setCurrentTime(210)\<close>, which sets the current time to
  210 in a replay at least that long.
\<close>
theorem next_breadcrumb_seek:
  "(startTimestampSec ctx = Some s \<and> s \<noteq> 0 \<and>
      gnb (userActionCrumbs tc ctx) (s * 1000 + currentTime ctx) = Some n \<and>
      timestamp n = Some ts \<and> ts \<noteq> 0
    \<longrightarrow> onClickNextBreadcrumb tc gnb rel ctx = [SetCurrentTime (rel ts s)])
   \<and> relativeTimeInMs ts s = ts - s * 1000
   \<and> (startTimestampSec cx = Some start \<and> start \<noteq> 0 \<and>
      getNextBreadcrumb (userActionCrumbs transformCrumbs cx) (start * 1000 + currentTime cx)
        = Some e \<and>
      timestamp e = Some te \<and> te \<noteq> 0
    \<longrightarrow> e \<in> set (transformCrumbs (rawCrumbs cx))
        \<and> type e \<in> {ERROR, INIT, NAVIGATION, UI, USER}
        \<and> start * 1000 + currentTime cx \<le> te
        \<and> (\<forall>c \<in> set (transformCrumbs (rawCrumbs cx)).
              type c \<in> {ERROR, INIT, NAVIGATION, UI, USER} \<longrightarrow>
              (\<forall>t. timestamp c = Some t \<and> start * 1000 + currentTime cx \<le> t \<longrightarrow> te \<le> t))
        \<and> onClickNextBreadcrumb transformCrumbs getNextBreadcrumb relativeTimeInMs cx
            = [SetCurrentTime (te - start * 1000)])
   \<and> (c \<in> set (transformCrumbs (rawCrumbs cx)) \<and>
      type c \<in> {ERROR, INIT, NAVIGATION, UI, USER} \<and>
      timestamp c = Some t \<and> target \<le> t
    \<longrightarrow> getNextBreadcrumb (userActionCrumbs transformCrumbs cx) target \<noteq> None)
   \<and> onClickNextBreadcrumb transformCrumbs getNextBreadcrumb relativeTimeInMs
        (st\<lparr>currentTime := 120, replay := Some scenarioB\<rparr>)
      = [SetCurrentTime 210]
   \<and> (210 \<le> duration st \<longrightarrow>
        currentTime (setCurrentTime 210 (st\<lparr>currentTime := 120, replay := Some scenarioB\<rparr>))
        = 210)"
proof -
  have general:
    "startTimestampSec ctx = Some s \<and> s \<noteq> 0 \<and>
      gnb (userActionCrumbs tc ctx) (s * 1000 + currentTime ctx) = Some n \<and>
      timestamp n = Some ts \<and> ts \<noteq> 0
    \<longrightarrow> onClickNextBreadcrumb tc gnb rel ctx = [SetCurrentTime (rel ts s)]"
    by (simp add: onClickNextBreadcrumb_known)
  have offset: "relativeTimeInMs ts s = ts - s * 1000"
    by (simp add: relativeTimeInMs_def)
  have queried: "x \<in> set (userActionCrumbs transformCrumbs cx) \<longleftrightarrow>
      x \<in> set (transformCrumbs (rawCrumbs cx)) \<and> type x \<in> {ERROR, INIT, NAVIGATION, UI, USER}"
    for x
    by (simp add: userActionCrumbs_def set_USER_ACTIONS)
  have earliest:
    "startTimestampSec cx = Some start \<and> start \<noteq> 0 \<and>
      getNextBreadcrumb (userActionCrumbs transformCrumbs cx) (start * 1000 + currentTime cx)
        = Some e \<and>
      timestamp e = Some te \<and> te \<noteq> 0
    \<longrightarrow> e \<in> set (transformCrumbs (rawCrumbs cx))
        \<and> type e \<in> {ERROR, INIT, NAVIGATION, UI, USER}
        \<and> start * 1000 + currentTime cx \<le> te
        \<and> (\<forall>c \<in> set (transformCrumbs (rawCrumbs cx)).
              type c \<in> {ERROR, INIT, NAVIGATION, UI, USER} \<longrightarrow>
              (\<forall>t. timestamp c = Some t \<and> start * 1000 + currentTime cx \<le> t \<longrightarrow> te \<le> t))
        \<and> onClickNextBreadcrumb transformCrumbs getNextBreadcrumb relativeTimeInMs cx
            = [SetCurrentTime (te - start * 1000)]"
  proof (intro impI)
    assume h: "startTimestampSec cx = Some start \<and> start \<noteq> 0 \<and>
      getNextBreadcrumb (userActionCrumbs transformCrumbs cx) (start * 1000 + currentTime cx)
        = Some e \<and>
      timestamp e = Some te \<and> te \<noteq> 0"
    then have found: "getNextBreadcrumb (userActionCrumbs transformCrumbs cx)
        (start * 1000 + currentTime cx) = Some e"
      and stamp: "timestamp e = Some te"
      by simp_all
    from getNextBreadcrumb_Some [OF found] stamp
    have member: "e \<in> set (userActionCrumbs transformCrumbs cx)"
      and after: "start * 1000 + currentTime cx \<le> te"
      by auto
    from member have index: "e \<in> set (transformCrumbs (rawCrumbs cx))"
      and kind: "type e \<in> {ERROR, INIT, NAVIGATION, UI, USER}"
      by (simp_all add: queried)
    have least: "\<forall>c \<in> set (transformCrumbs (rawCrumbs cx)).
              type c \<in> {ERROR, INIT, NAVIGATION, UI, USER} \<longrightarrow>
              (\<forall>t. timestamp c = Some t \<and> start * 1000 + currentTime cx \<le> t \<longrightarrow> te \<le> t)"
    proof (intro ballI impI allI)
      fix c t
      assume "c \<in> set (transformCrumbs (rawCrumbs cx))"
        and "type c \<in> {ERROR, INIT, NAVIGATION, UI, USER}"
        and ct: "timestamp c = Some t \<and> start * 1000 + currentTime cx \<le> t"
      then have "c \<in> set (userActionCrumbs transformCrumbs cx)"
        by (simp add: queried)
      with ct show "te \<le> t"
        using getNextBreadcrumb_earliest [OF sorted_userActionCrumbs found _ _ _ stamp]
        by blast
    qed
    from h have "onClickNextBreadcrumb transformCrumbs getNextBreadcrumb relativeTimeInMs cx
            = [SetCurrentTime (te - start * 1000)]"
      by (simp add: onClickNextBreadcrumb_known relativeTimeInMs_def)
    with index kind after least
    show "e \<in> set (transformCrumbs (rawCrumbs cx))
        \<and> type e \<in> {ERROR, INIT, NAVIGATION, UI, USER}
        \<and> start * 1000 + currentTime cx \<le> te
        \<and> (\<forall>c \<in> set (transformCrumbs (rawCrumbs cx)).
              type c \<in> {ERROR, INIT, NAVIGATION, UI, USER} \<longrightarrow>
              (\<forall>t. timestamp c = Some t \<and> start * 1000 + currentTime cx \<le> t \<longrightarrow> te \<le> t))
        \<and> onClickNextBreadcrumb transformCrumbs getNextBreadcrumb relativeTimeInMs cx
            = [SetCurrentTime (te - start * 1000)]"
      by blast
  qed
  have finds:
    "c \<in> set (transformCrumbs (rawCrumbs cx)) \<and>
      type c \<in> {ERROR, INIT, NAVIGATION, UI, USER} \<and>
      timestamp c = Some t \<and> target \<le> t
    \<longrightarrow> getNextBreadcrumb (userActionCrumbs transformCrumbs cx) target \<noteq> None"
  proof (intro impI)
    assume q: "c \<in> set (transformCrumbs (rawCrumbs cx)) \<and>
      type c \<in> {ERROR, INIT, NAVIGATION, UI, USER} \<and>
      timestamp c = Some t \<and> target \<le> t"
    then have "c \<in> set (userActionCrumbs transformCrumbs cx)"
      by (simp add: queried)
    with q have "\<not> (\<forall>c \<in> set (userActionCrumbs transformCrumbs cx).
        \<forall>ts. timestamp c = Some ts \<longrightarrow> ts < target)"
      by (metis not_less)
    then show "getNextBreadcrumb (userActionCrumbs transformCrumbs cx) target \<noteq> None"
      by (simp add: getNextBreadcrumb_None_iff)
  qed
  have scenario:
    "onClickNextBreadcrumb transformCrumbs getNextBreadcrumb relativeTimeInMs
        (st\<lparr>currentTime := 120, replay := Some scenarioB\<rparr>)
      = [SetCurrentTime 210]"
    by (simp add: onClickNextBreadcrumb_def startTimestampSec_def userActionCrumbs_def
        rawCrumbs_def scenarioB_def transformCrumbs_def getNextBreadcrumb_def
        relativeTimeInMs_def USER_ACTIONS_def)
  have clock:
    "210 \<le> duration st \<longrightarrow>
        currentTime (setCurrentTime 210 (st\<lparr>currentTime := 120, replay := Some scenarioB\<rparr>))
        = 210"
    by (simp add: setCurrentTime_def clamp_def)
  from general offset earliest finds scenario clock show ?thesis
    by (intro conjI)
qed

text \<open>
  The hypotheses of C1 hold in scenario B: the query returns the event at 1210 ms, which
  is in the index and at or after the target 1120; the later event at 1400 ms is one the
  query could also have found; and the handler seeks to 210 ms.
\<close>

theorem next_breadcrumb_seek_witness:
  "startTimestampSec contextB = Some 1
   \<and> getNextBreadcrumb (userActionCrumbs transformCrumbs contextB)
        (1 * 1000 + currentTime contextB)
      = Some \<lparr>type = NAVIGATION, timestamp = Some 1210\<rparr>
   \<and> \<lparr>type = NAVIGATION, timestamp = Some 1210\<rparr> \<in> set (transformCrumbs (rawCrumbs contextB))
   \<and> 1 * 1000 + currentTime contextB \<le> 1210
   \<and> \<lparr>type = USER, timestamp = Some 1400\<rparr> \<in> set (transformCrumbs (rawCrumbs contextB))
   \<and> getNextBreadcrumb (userActionCrumbs transformCrumbs contextB) 1120 \<noteq> None
   \<and> onClickNextBreadcrumb transformCrumbs getNextBreadcrumb relativeTimeInMs contextB
      = [SetCurrentTime (relativeTimeInMs 1210 1)]
   \<and> onClickNextBreadcrumb transformCrumbs getNextBreadcrumb relativeTimeInMs contextB
      = [SetCurrentTime (1210 - 1 * 1000)]
   \<and> relativeTimeInMs 1210 1 = 210
   \<and> 210 \<le> duration contextB
   \<and> currentTime (setCurrentTime 210 contextB) = 210"
proof -
  have start: "startTimestampSec contextB = Some 1"
    by (simp add: startTimestampSec_def contextB_def scenarioB_def)
  have found: "getNextBreadcrumb (userActionCrumbs transformCrumbs contextB)
        (1 * 1000 + currentTime contextB)
      = Some \<lparr>type = NAVIGATION, timestamp = Some 1210\<rparr>"
    by (simp add: userActionCrumbs_def rawCrumbs_def contextB_def scenarioB_def
        transformCrumbs_def getNextBreadcrumb_def USER_ACTIONS_def)
  have later: "\<lparr>type = USER, timestamp = Some 1400\<rparr> \<in> set (transformCrumbs (rawCrumbs contextB))"
    by (simp add: rawCrumbs_def contextB_def scenarioB_def transformCrumbs_def)
  have long: "210 \<le> duration contextB"
    by (simp add: contextB_def)
  have same: "contextB\<lparr>currentTime := 120, replay := Some scenarioB\<rparr> = contextB"
    by (simp add: contextB_def)
  note inst = next_breadcrumb_seek
    [of contextB 1 getNextBreadcrumb transformCrumbs
        "\<lparr>type = NAVIGATION, timestamp = Some 1210\<rparr>" 1210 relativeTimeInMs
        contextB 1 "\<lparr>type = NAVIGATION, timestamp = Some 1210\<rparr>" 1210
        "\<lparr>type = USER, timestamp = Some 1400\<rparr>" 1400 1120 contextB]
  have nonzero: "(1::real) \<noteq> 0"
    and stamp: "timestamp \<lparr>type = NAVIGATION, timestamp = Some 1210\<rparr> = Some 1210"
    and stamp_nonzero: "(1210::real) \<noteq> 0"
    and later_kind: "type \<lparr>type = USER, timestamp = Some 1400\<rparr> \<in> {ERROR, INIT, NAVIGATION, UI, USER}"
    and later_stamp: "timestamp \<lparr>type = USER, timestamp = Some 1400\<rparr> = Some 1400"
    and later_after: "(1120::real) \<le> 1400"
    by simp_all
  from inst [unfolded same] start found nonzero stamp stamp_nonzero long
  have seek: "onClickNextBreadcrumb transformCrumbs getNextBreadcrumb relativeTimeInMs contextB
      = [SetCurrentTime (relativeTimeInMs 1210 1)]"
    and offset: "relativeTimeInMs 1210 1 = 1210 - 1 * 1000"
    and index: "\<lparr>type = NAVIGATION, timestamp = Some 1210\<rparr> \<in> set (transformCrumbs (rawCrumbs contextB))"
    and after_target: "1 * 1000 + currentTime contextB \<le> 1210"
    and seek_ms: "onClickNextBreadcrumb transformCrumbs getNextBreadcrumb relativeTimeInMs contextB
      = [SetCurrentTime (1210 - 1 * 1000)]"
    and after: "currentTime (setCurrentTime 210 contextB) = 210"
    by blast+
  from inst later later_kind later_stamp later_after
  have finds: "getNextBreadcrumb (userActionCrumbs transformCrumbs contextB) 1120 \<noteq> None"
    by blast
  from offset have "relativeTimeInMs 1210 1 = 210" by simp
  with start found index after_target later finds seek seek_ms long after
  show ?thesis by (intro conjI)
qed

text \<open>
  C1 as it is written fails at two inputs, whatever the helpers do beyond finding the
  event. Where the session start timestamp is known and 0 and the cursor is at 120 ms,
  the earliest event of interest at or after the target 120 is the one at 210 ms, and the
  handler calls nothing, since \<^verbatim>\<open>!startTimestampSec\<close> holds for 0. Where the session
  starts at -1 s and the cursor is at 500 ms, the target is -500, the event found has the
  timestamp 0, and the handler calls nothing, since \<^verbatim>\<open>next?.timestamp\<close> is falsy for 0.
\<close>

theorem next_breadcrumb_seek_counterexample:
  "startTimestampSec epochContext = Some 0
   \<and> getNextBreadcrumb (userActionCrumbs transformCrumbs epochContext)
        (0 * 1000 + currentTime epochContext)
      = Some \<lparr>type = NAVIGATION, timestamp = Some 210\<rparr>
   \<and> onClickNextBreadcrumb transformCrumbs getNextBreadcrumb relativeTimeInMs epochContext
      = []
   \<and> onClickNextBreadcrumb transformCrumbs getNextBreadcrumb relativeTimeInMs epochContext
      \<noteq> [SetCurrentTime (relativeTimeInMs 210 0)]
   \<and> startTimestampSec beforeEpochContext = Some (- 1)
   \<and> getNextBreadcrumb (userActionCrumbs transformCrumbs beforeEpochContext)
        (- 1 * 1000 + currentTime beforeEpochContext)
      = Some \<lparr>type = USER, timestamp = Some 0\<rparr>
   \<and> onClickNextBreadcrumb transformCrumbs getNextBreadcrumb relativeTimeInMs
        beforeEpochContext
      = []
   \<and> onClickNextBreadcrumb transformCrumbs getNextBreadcrumb relativeTimeInMs
        beforeEpochContext
      \<noteq> [SetCurrentTime (relativeTimeInMs 0 (- 1))]"
  by (simp add: onClickNextBreadcrumb_def startTimestampSec_def userActionCrumbs_def
      rawCrumbs_def epochContext_def beforeEpochContext_def transformCrumbs_def
      getNextBreadcrumb_def USER_ACTIONS_def)

text \<open>
  C2. When the session start timestamp is unknown, or the query finds no event, the
  handler calls no command: whatever the commands of the clock do, the playback state
  after the click is the state before it. The handler has no other outcome than a list
  of commands, so nothing is raised.
\<close>

theorem next_breadcrumb_noop:
  assumes "startTimestampSec ctx = None \<or>
           (\<exists>s. startTimestampSec ctx = Some s \<and>
                gnb (userActionCrumbs tc ctx) (s * 1000 + currentTime ctx) = None)"
  shows "onClickNextBreadcrumb tc gnb rel ctx = []
         \<and> dispatch clock (onClickNextBreadcrumb tc gnb rel ctx) st = st"
proof -
  have "onClickNextBreadcrumb tc gnb rel ctx = []"
    using assms by (auto simp: onClickNextBreadcrumb_def Let_def)
  then show ?thesis by (simp add: dispatch_def)
qed

text \<open>
  Both cases at concrete inputs: a context with no replay, and scenario E (the events of
  scenario B with the cursor at 500 ms, past the last of them). The clock here rewinds to
  0 on every command it is given; it is given none.
\<close>

theorem next_breadcrumb_noop_witness:
  "startTimestampSec contextC = None
   \<and> dispatch (\<lambda>command. setCurrentTime 0)
        (onClickNextBreadcrumb transformCrumbs getNextBreadcrumb relativeTimeInMs contextC)
        contextC = contextC
   \<and> startTimestampSec (contextB\<lparr>currentTime := 500\<rparr>) = Some 1
   \<and> getNextBreadcrumb (userActionCrumbs transformCrumbs (contextB\<lparr>currentTime := 500\<rparr>))
        (1 * 1000 + currentTime (contextB\<lparr>currentTime := 500\<rparr>)) = None
   \<and> onClickNextBreadcrumb transformCrumbs getNextBreadcrumb relativeTimeInMs
        (contextB\<lparr>currentTime := 500\<rparr>) = []
   \<and> dispatch (\<lambda>command. setCurrentTime 0)
        (onClickNextBreadcrumb transformCrumbs getNextBreadcrumb relativeTimeInMs
           (contextB\<lparr>currentTime := 500\<rparr>))
        (contextB\<lparr>currentTime := 500\<rparr>) = contextB\<lparr>currentTime := 500\<rparr>"
proof -
  have unknown: "startTimestampSec contextC = None"
    by (simp add: startTimestampSec_def contextC_def)
  have start: "startTimestampSec (contextB\<lparr>currentTime := 500\<rparr>) = Some 1"
    by (simp add: startTimestampSec_def contextB_def scenarioB_def)
  have none: "getNextBreadcrumb (userActionCrumbs transformCrumbs (contextB\<lparr>currentTime := 500\<rparr>))
        (1 * 1000 + currentTime (contextB\<lparr>currentTime := 500\<rparr>)) = None"
    by (simp add: userActionCrumbs_def rawCrumbs_def contextB_def scenarioB_def
        transformCrumbs_def getNextBreadcrumb_def USER_ACTIONS_def)
  from unknown
  have a: "onClickNextBreadcrumb transformCrumbs getNextBreadcrumb relativeTimeInMs contextC = []
     \<and> dispatch (\<lambda>command. setCurrentTime 0)
        (onClickNextBreadcrumb transformCrumbs getNextBreadcrumb relativeTimeInMs contextC)
        contextC = contextC"
    by (intro next_breadcrumb_noop) simp
  from start none
  have b: "onClickNextBreadcrumb transformCrumbs getNextBreadcrumb relativeTimeInMs
        (contextB\<lparr>currentTime := 500\<rparr>) = []
     \<and> dispatch (\<lambda>command. setCurrentTime 0)
        (onClickNextBreadcrumb transformCrumbs getNextBreadcrumb relativeTimeInMs
           (contextB\<lparr>currentTime := 500\<rparr>))
        (contextB\<lparr>currentTime := 500\<rparr>) = contextB\<lparr>currentTime := 500\<rparr>"
    by (intro next_breadcrumb_noop) blast
  from unknown start none a b show ?thesis by blast
qed

text \<open>
  C8. The guards of the handler test truthiness. A session start timestamp of 0 makes
  the handler return at once, as an unknown one does; and when the query returns an event
  whose timestamp is absent or 0, \<^verbatim>\<open>setCurrentTime\<close> is not called.
\<close>

theorem next_breadcrumb_truthiness:
  "(startTimestampSec ctx = Some 0 \<longrightarrow>
      onClickNextBreadcrumb tc gnb rel ctx = []
      \<and> onClickNextBreadcrumb tc gnb rel ctx
          = onClickNextBreadcrumb tc gnb rel (ctx\<lparr>replay := None\<rparr>))
   \<and> (startTimestampSec ctx = Some s \<and>
      gnb (userActionCrumbs tc ctx) (s * 1000 + currentTime ctx) = Some n \<and>
      (timestamp n = None \<or> timestamp n = Some 0)
      \<longrightarrow> onClickNextBreadcrumb tc gnb rel ctx = [])"
proof (intro conjI impI)
  assume z: "startTimestampSec ctx = Some 0"
  then show "onClickNextBreadcrumb tc gnb rel ctx = []"
    by (simp add: onClickNextBreadcrumb_falsy_start)
  have "startTimestampSec (ctx\<lparr>replay := None\<rparr>) = None"
    by (simp add: startTimestampSec_def)
  with z show "onClickNextBreadcrumb tc gnb rel ctx
          = onClickNextBreadcrumb tc gnb rel (ctx\<lparr>replay := None\<rparr>)"
    by (simp add: onClickNextBreadcrumb_falsy_start)
next
  assume "startTimestampSec ctx = Some s \<and>
      gnb (userActionCrumbs tc ctx) (s * 1000 + currentTime ctx) = Some n \<and>
      (timestamp n = None \<or> timestamp n = Some 0)"
  then show "onClickNextBreadcrumb tc gnb rel ctx = []"
    by (auto simp: onClickNextBreadcrumb_def Let_def)
qed

text \<open>
  The session that starts at the epoch, and the session that starts one second before it
  with an event at timestamp 0: the query finds that event, and nothing is called.
\<close>

theorem next_breadcrumb_truthiness_witness:
  "startTimestampSec epochContext = Some 0
   \<and> onClickNextBreadcrumb transformCrumbs getNextBreadcrumb relativeTimeInMs epochContext = []
   \<and> startTimestampSec beforeEpochContext = Some (- 1)
   \<and> getNextBreadcrumb (userActionCrumbs transformCrumbs beforeEpochContext)
        (- 1 * 1000 + currentTime beforeEpochContext)
      = Some \<lparr>type = USER, timestamp = Some 0\<rparr>
   \<and> onClickNextBreadcrumb transformCrumbs getNextBreadcrumb relativeTimeInMs
        beforeEpochContext = []"
proof -
  have zero: "startTimestampSec epochContext = Some 0"
    by (simp add: startTimestampSec_def epochContext_def)
  have start: "startTimestampSec beforeEpochContext = Some (- 1)"
    by (simp add: startTimestampSec_def beforeEpochContext_def)
  have found: "getNextBreadcrumb (userActionCrumbs transformCrumbs beforeEpochContext)
        (- 1 * 1000 + currentTime beforeEpochContext)
      = Some \<lparr>type = USER, timestamp = Some 0\<rparr>"
    by (simp add: userActionCrumbs_def rawCrumbs_def beforeEpochContext_def
        transformCrumbs_def getNextBreadcrumb_def USER_ACTIONS_def)
  have falsy: "timestamp \<lparr>type = USER, timestamp = Some 0\<rparr> = None
     \<or> timestamp \<lparr>type = USER, timestamp = Some 0\<rparr> = Some 0"
    by simp
  from zero next_breadcrumb_truthiness
    [of epochContext transformCrumbs getNextBreadcrumb relativeTimeInMs]
  have a: "onClickNextBreadcrumb transformCrumbs getNextBreadcrumb relativeTimeInMs epochContext = []"
    by blast
  from start found falsy next_breadcrumb_truthiness
    [of beforeEpochContext transformCrumbs getNextBreadcrumb relativeTimeInMs "- 1"
        "\<lparr>type = USER, timestamp = Some 0\<rparr>"]
  have b: "onClickNextBreadcrumb transformCrumbs getNextBreadcrumb relativeTimeInMs
        beforeEpochContext = []"
    by blast
  from zero start found a b show ?thesis by blast
qed


subsection \<open>The kinds of breadcrumb the seek considers\<close>

text \<open>
  C5. \<^verbatim>\<open>USER_ACTIONS\<close> is the fixed list of the five kinds error, session-init,
  navigation, ui-interaction and user-action. A transformed crumb is among those the
  handler queries if and only if its type is one of the five; and the handler does the
  same on an index from which every crumb of another type has been removed beforehand.
\<close>

theorem user_actions_allowlist:
  "set USER_ACTIONS = {ERROR, INIT, NAVIGATION, UI, USER}
   \<and> distinct USER_ACTIONS \<and> length USER_ACTIONS = 5
   \<and> (c \<in> set (userActionCrumbs tc ctx) \<longleftrightarrow>
        c \<in> set (tc (rawCrumbs ctx)) \<and> type c \<in> {ERROR, INIT, NAVIGATION, UI, USER})
   \<and> onClickNextBreadcrumb
        (\<lambda>raw. filter (\<lambda>crumb. type crumb \<in> {ERROR, INIT, NAVIGATION, UI, USER}) (tc raw))
        gnb rel ctx
      = onClickNextBreadcrumb tc gnb rel ctx"
proof -
  have same: "userActionCrumbs
      (\<lambda>raw. filter (\<lambda>crumb. type crumb \<in> {ERROR, INIT, NAVIGATION, UI, USER}) (tc raw)) ctx
      = userActionCrumbs tc ctx"
    by (simp add: userActionCrumbs_def set_USER_ACTIONS)
  have mem: "c \<in> set (userActionCrumbs tc ctx) \<longleftrightarrow>
        c \<in> set (tc (rawCrumbs ctx)) \<and> type c \<in> {ERROR, INIT, NAVIGATION, UI, USER}"
    by (simp add: userActionCrumbs_def set_USER_ACTIONS)
  have handler: "onClickNextBreadcrumb
        (\<lambda>raw. filter (\<lambda>crumb. type crumb \<in> {ERROR, INIT, NAVIGATION, UI, USER}) (tc raw))
        gnb rel ctx
      = onClickNextBreadcrumb tc gnb rel ctx"
    unfolding onClickNextBreadcrumb_def same ..
  have "distinct USER_ACTIONS \<and> length USER_ACTIONS = 5"
    by (simp add: USER_ACTIONS_def)
  with set_USER_ACTIONS mem handler show ?thesis by blast
qed

subsection \<open>The compaction level\<close>

text \<open>
  C6. For a measured width \<open>w\<close> the compaction level becomes 1 if \<open>w < 400\<close> and 0
  otherwise, whatever the level was before; the widths 500, 350, 500 give the levels
  0, 1, 0. At level 1 the bar shows neither the rewind button nor the next-breadcrumb
  button and the prefix of the speed select is empty; at level 0 the bar shows the rewind
  button, the middle button and the next-breadcrumb button, and the prefix is
  \<^verbatim>\<open>t('Speed')\<close>.
\<close>

theorem compaction_level:
  "updateCompactLevel (Some \<lparr>width = w\<rparr>) level = (if w < 400 then 1 else 0)
   \<and> levels level [500, 350, 500] = [0, 1, 0]
   \<and> playPauseBar
         (ReplayControls t nts opts (updateCompactLevel (Some \<lparr>width = w\<rparr>) level) ctx)
        = (if w < 400 then [if isFinished ctx then RestartButton else PlayPauseButton]
           else [Rewind10Button, if isFinished ctx then RestartButton else PlayPauseButton,
                 NextBreadcrumbButton])
   \<and> playPauseBar (ReplayControls t nts opts 1 ctx)
        = [if isFinished ctx then RestartButton else PlayPauseButton]
   \<and> prefix (playbackSpeed (ReplayControls t nts opts 1 ctx)) = []
   \<and> playPauseBar (ReplayControls t nts opts 0 ctx)
        = [Rewind10Button, if isFinished ctx then RestartButton else PlayPauseButton,
           NextBreadcrumbButton]
   \<and> prefix (playbackSpeed (ReplayControls t nts opts 0 ctx)) = t ''Speed''"
  by (simp add: updateCompactLevel_def measuredRect_def ReplayControls_def
      ReplayPlayPauseBar_def ReplayPlaybackSpeed_def)

text \<open>
  C10. When \<^verbatim>\<open>barRef.current\<close> is null the width used is 500, the compaction level
  becomes 0, and a render at that level shows all three buttons of the bar and the full
  prefix of the speed select.
\<close>

theorem unmeasured_width_default:
  "width (measuredRect None) = 500
   \<and> updateCompactLevel None level = 0
   \<and> playPauseBar (ReplayControls t nts opts (updateCompactLevel None level) ctx)
        = [Rewind10Button, if isFinished ctx then RestartButton else PlayPauseButton,
           NextBreadcrumbButton]
   \<and> prefix (playbackSpeed (ReplayControls t nts opts (updateCompactLevel None level) ctx))
        = t ''Speed''"
  by (simp add: updateCompactLevel_def measuredRect_def ReplayControls_def
      ReplayPlayPauseBar_def ReplayPlaybackSpeed_def)

text \<open>
  C7. The claim is that the level is computed on every resize and once on mount, before
  the first paint. The resize observer does call \<^verbatim>\<open>updateCompactLevel\<close>. The layout
  effect does not: its callback returns \<^verbatim>\<open>updateCompactLevel\<close>, so React keeps it as the
  cleanup of the effect. A component mounted in a bar 350 pixels wide is at level 0 after
  the layout effect, where \<^verbatim>\<open>updateCompactLevel\<close> would have set level 1.
\<close>

theorem mount_does_not_measure:
  "compactLevel (lifecycle m (Mount (Some \<lparr>width = 350\<rparr>))) = 0
   \<and> updateCompactLevel (Some \<lparr>width = 350\<rparr>) 0 = 1
   \<and> cleanup (lifecycle m (Mount rect)) = Some updateCompactLevel
   \<and> compactLevel (lifecycle m (Resize rect)) = updateCompactLevel rect (compactLevel m)"
  by (simp add: layoutEffect_def onResize_def updateCompactLevel_def measuredRect_def)

subsection \<open>The speed select\<close>

text \<open>
  C9. The select offers one option per entry of \<^verbatim>\<open>speedOptions\<close>, in order. Each option
  is disabled exactly when its value is the current speed. Choosing an option calls
  \<^verbatim>\<open>setSpeed\<close> with the value of that option and calls nothing else: whatever the
  commands of the clock do, the state after the choice is the state after that one call.
\<close>

theorem speed_select:
  "map optionValue (options (ReplayPlaybackSpeed t nts speedOptions isCompact ctx)) = speedOptions
   \<and> (opt \<in> set (options (ReplayPlaybackSpeed t nts speedOptions isCompact ctx)) \<longrightarrow>
        optionValue opt \<in> set speedOptions
        \<and> disabled opt = (optionValue opt = speed ctx)
        \<and> onChangeSpeed opt = [SetSpeed (optionValue opt)]
        \<and> dispatch clock (onChangeSpeed opt) st = clock (SetSpeed (optionValue opt)) st)"
  by (auto simp: ReplayPlaybackSpeed_def onChangeSpeed_def dispatch_def comp_def)

text \<open>
  With the default speeds and the current speed 1, the option for speed 2 is offered and
  enabled; choosing it on a clock whose \<^verbatim>\<open>setSpeed\<close> stores the speed sets the speed to 2
  and leaves the rest of the state as it was.
\<close>

theorem speed_select_witness:
  "\<lparr>optionValue = 2, label = ''2x'', disabled = False\<rparr>
     \<in> set (options (ReplayPlaybackSpeed (\<lambda>s. s) (\<lambda>x. if x = 2 then ''2'' else ''1'')
               defaultSpeedOptions False contextB))
   \<and> speed contextB = 1
   \<and> onChangeSpeed \<lparr>optionValue = 2, label = ''2x'', disabled = False\<rparr> = [SetSpeed 2]
   \<and> dispatch (\<lambda>command st. case command of SetSpeed v \<Rightarrow> st\<lparr>speed := v\<rparr> | _ \<Rightarrow> st)
        (onChangeSpeed \<lparr>optionValue = 2, label = ''2x'', disabled = False\<rparr>) contextB
      = contextB\<lparr>speed := 2\<rparr>"
proof -
  have offered: "\<lparr>optionValue = 2, label = ''2x'', disabled = False\<rparr>
     \<in> set (options (ReplayPlaybackSpeed (\<lambda>s. s) (\<lambda>x. if x = 2 then ''2'' else ''1'')
               defaultSpeedOptions False contextB))"
    by (simp add: ReplayPlaybackSpeed_def defaultSpeedOptions_def contextB_def)
  have current: "speed contextB = 1"
    by (simp add: contextB_def)
  from offered speed_select
    [of "\<lambda>s. s" "\<lambda>x. if x = 2 then ''2'' else ''1''" defaultSpeedOptions False contextB
        "\<lparr>optionValue = 2, label = ''2x'', disabled = False\<rparr>"
        "\<lambda>command st. case command of SetSpeed v \<Rightarrow> st\<lparr>speed := v\<rparr> | _ \<Rightarrow> st" contextB]
  have call: "onChangeSpeed \<lparr>optionValue = 2, label = ''2x'', disabled = False\<rparr>
          = [SetSpeed (optionValue \<lparr>optionValue = 2, label = ''2x'', disabled = False\<rparr>)]"
    and run: "dispatch (\<lambda>command st. case command of SetSpeed v \<Rightarrow> st\<lparr>speed := v\<rparr> | _ \<Rightarrow> st)
          (onChangeSpeed \<lparr>optionValue = 2, label = ''2x'', disabled = False\<rparr>) contextB
        = (\<lambda>command st. case command of SetSpeed v \<Rightarrow> st\<lparr>speed := v\<rparr> | _ \<Rightarrow> st)
            (SetSpeed (optionValue \<lparr>optionValue = 2, label = ''2x'', disabled = False\<rparr>)) contextB"
    by blast+
  from call
  have call2: "onChangeSpeed \<lparr>optionValue = 2, label = ''2x'', disabled = False\<rparr> = [SetSpeed 2]"
    by simp
  have "(\<lambda>command st. case command of SetSpeed v \<Rightarrow> st\<lparr>speed := v\<rparr> | _ \<Rightarrow> st)
            (SetSpeed (optionValue \<lparr>optionValue = 2, label = ''2x'', disabled = False\<rparr>)) contextB
        = contextB\<lparr>speed := 2\<rparr>"
    by simp
  with run
  have run2: "dispatch (\<lambda>command st. case command of SetSpeed v \<Rightarrow> st\<lparr>speed := v\<rparr> | _ \<Rightarrow> st)
          (onChangeSpeed \<lparr>optionValue = 2, label = ''2x'', disabled = False\<rparr>) contextB
        = contextB\<lparr>speed := 2\<rparr>"
    by (rule trans)
  note call2 run2
  with offered current show ?thesis by blast
qed

end
